theory Spec2Isabelle
  imports Complex_Main
begin

section \<open>Data model\<close>

text \<open>
  A coordinate is the two-element list \<open>[lng, lat]\<close> of \<open>sea_route_service.py\<close>. The
  floats of the source are idealised as reals, and equality of coordinates is equality
  of both components, as \<open>!=\<close> on two-element lists of floats is.
\<close>

type_synonym coord = "real \<times> real"

text \<open>A value stored under a key of the \<open>properties\<close> dictionary of a GeoJSON feature.\<close>

datatype pval = PNum real | PInt int | PStr string

record geometry =
  gtype :: string
  coordinates :: "coord list"

record feature =
  ftype :: string
  geometry :: geometry
  properties :: "string \<rightharpoonup> pval"

text \<open>
  The exceptions of the module: the pathfinder failing in the \<open>original\<close> branch of the
  handler, the \<open>Exception("Could not generate reference route ...")\<close> of the two builders,
  an index out of range and \<open>range\<close> with step 0. The handler turns each into a
  response with status 500.
\<close>

datatype exn = SearouteError | RefRouteError | IndexError | ValueError

datatype http_error = HTTP500 exn

text \<open>
  The two collaborators that are not code of the module are parameters of the model:
  \<open>geodesic(...).kilometers\<close> of geopy, applied to two coordinates, and \<open>sr.searoute\<close>,
  which returns a feature or raises (\<open>None\<close>).
\<close>

type_synonym geodesic = "coord \<Rightarrow> coord \<Rightarrow> real"

type_synonym pathfinder = "coord \<Rightarrow> coord \<Rightarrow> string \<Rightarrow> feature option"

section \<open>Geodesy\<close>

definition radians :: "real \<Rightarrow> real" where
  "radians d = d * pi / 180"

definition degrees :: "real \<Rightarrow> real" where
  "degrees r = r * 180 / pi"

text \<open>\<open>math.atan2(y, x)\<close>, the angle of the point \<open>(x, y)\<close> in \<open>(-pi, pi]\<close>; 0 at the origin.\<close>

definition atan2 :: "real \<Rightarrow> real \<Rightarrow> real" where
  "atan2 y x =
     (if 0 < x then arctan (y / x)
      else if x < 0 then (if 0 \<le> y then arctan (y / x) + pi else arctan (y / x) - pi)
      else if 0 < y then pi / 2
      else if y < 0 then - (pi / 2)
      else 0)"

text \<open>Python's \<open>a % m\<close> on floats, for a positive \<open>m\<close>: the result has the sign of \<open>m\<close>.\<close>

definition py_mod :: "real \<Rightarrow> real \<Rightarrow> real" where
  "py_mod a m = a - m * of_int \<lfloor>a / m\<rfloor>"

text \<open>\<open>_bearing(p1, p2)\<close>\<close>

definition bearing :: "coord \<Rightarrow> coord \<Rightarrow> real" where
  "bearing p1 p2 =
     (let lon1 = radians (fst p1); lat1 = radians (snd p1);
          lon2 = radians (fst p2); lat2 = radians (snd p2);
          d_lon = lon2 - lon1;
          x = sin d_lon * cos lat2;
          y = cos lat1 * sin lat2 - sin lat1 * cos lat2 * cos d_lon;
          b = degrees (atan2 x y)
      in py_mod (b + 360) 360)"

text \<open>\<open>_ang_diff(a, b)\<close>\<close>

definition ang_diff :: "real \<Rightarrow> real \<Rightarrow> real" where
  "ang_diff a b = (let d = py_mod \<bar>a - b\<bar> 360 in if d \<le> 180 then d else 360 - d)"

text \<open>\<open>calculate_distance(p1, p2, units)\<close>\<close>

definition calculate_distance :: "geodesic \<Rightarrow> coord \<Rightarrow> coord \<Rightarrow> string \<Rightarrow> real" where
  "calculate_distance geodesic_km p1 p2 units =
     (let dist_km = geodesic_km p1 p2 in
      if units = ''naut'' then dist_km * 0.539957
      else if units = ''km'' then dist_km
      else dist_km * 0.621371)"

text \<open>
  A distance for concrete runs of the model: the length in kilometres of the arc of the
  equator between two points of latitude 0 (one degree of longitude on the WGS84
  equator is 6378.137 * pi / 180 = 111.3195 km), which is their geodesic distance when
  they are less than 179 degrees apart. It is used at such points only.
\<close>

definition equator_km :: geodesic where
  "equator_km p q = 111.3195 * \<bar>fst p - fst q\<bar>"

section \<open>Merge point selector\<close>

text \<open>\<open>float('inf')\<close> is \<open>None\<close>: every distance and every score is below it.\<close>

definition below_inf :: "real \<Rightarrow> real option \<Rightarrow> bool" where
  "below_inf x m = (case m of None \<Rightarrow> True | Some v \<Rightarrow> x < v)"

text \<open>
  The first loop of \<open>find_optimal_merge_point\<close>, over \<open>enumerate(reference_route)\<close> from
  index \<open>i\<close> on, on the state \<open>(min_dist, closest_idx)\<close>.
\<close>

fun closest_scan ::
  "geodesic \<Rightarrow> coord \<Rightarrow> coord list \<Rightarrow> nat \<Rightarrow> real option \<times> nat \<Rightarrow> real option \<times> nat" where
  "closest_scan g ship_position [] i st = st"
| "closest_scan g ship_position (route_point # rest) i (min_dist, closest_idx) =
     (let dist_km = g ship_position route_point in
      if below_inf dist_km min_dist
      then closest_scan g ship_position rest (Suc i) (Some dist_km, i)
      else closest_scan g ship_position rest (Suc i) (min_dist, closest_idx))"

definition closest_index :: "geodesic \<Rightarrow> coord \<Rightarrow> coord list \<Rightarrow> nat" where
  "closest_index g ship_position reference_route =
     snd (closest_scan g ship_position reference_route 0 (None, 0))"

text \<open>
  The state of the second loop. \<open>best_merge_idx\<close> and \<open>best_merge_point\<close> are assigned
  together, so they are one optional pair; \<open>None\<close> is Python's \<open>None\<close>.
\<close>

record merge_state =
  best_score :: "real option"
  best_merge :: "(nat \<times> coord) option"

text \<open>The body of the second loop at index \<open>i\<close> (\<open>reference_route[-1]\<close> is \<open>last\<close>).\<close>

definition merge_step ::
  "geodesic \<Rightarrow> coord \<Rightarrow> coord list \<Rightarrow> real \<Rightarrow> nat \<Rightarrow> merge_state \<Rightarrow> merge_state" where
  "merge_step g ship_position reference_route max_deviation_km i st =
     (let route_point = reference_route ! i;
          dist_km = g ship_position route_point
      in if dist_km > max_deviation_km then st
         else
           let bearing_to_point = bearing ship_position route_point;
               bearing_to_dest = bearing ship_position (last reference_route);
               bearing_diff = ang_diff bearing_to_point bearing_to_dest;
               score = dist_km + bearing_diff * 2
           in if below_inf score (best_score st)
              then \<lparr>best_score = Some score, best_merge = Some (i, route_point)\<rparr>
              else st)"

function merge_scan ::
  "geodesic \<Rightarrow> coord \<Rightarrow> coord list \<Rightarrow> real \<Rightarrow> nat \<Rightarrow> merge_state \<Rightarrow> merge_state" where
  "merge_scan g ship_position reference_route max_deviation_km i st =
     (if i < length reference_route
      then merge_scan g ship_position reference_route max_deviation_km (Suc i)
             (merge_step g ship_position reference_route max_deviation_km i st)
      else st)"
  by pat_completeness auto
termination
  by (relation "measure (\<lambda>(g, s, r, m, i, st). length r - i)") auto

declare merge_scan.simps [simp del]

text \<open>
  \<open>find_optimal_merge_point(ship_position, reference_route, max_deviation_km)\<close>. On an
  empty route the fallback index is \<open>min(0, -1) = -1\<close> and \<open>reference_route[-1]\<close> raises
  IndexError; on a non-empty one the fallback index is not negative.
\<close>

definition find_optimal_merge_point ::
  "geodesic \<Rightarrow> coord \<Rightarrow> coord list \<Rightarrow> real \<Rightarrow> exn + nat \<times> coord" where
  "find_optimal_merge_point g ship_position reference_route max_deviation_km =
     (let closest_idx = closest_index g ship_position reference_route;
          st = merge_scan g ship_position reference_route max_deviation_km closest_idx
                 \<lparr>best_score = None, best_merge = None\<rparr>
      in case best_merge st of
           Some (best_merge_idx, best_merge_point) \<Rightarrow> Inr (best_merge_idx, best_merge_point)
         | None \<Rightarrow>
             if reference_route = [] then Inl IndexError
             else
               let forward_idx =
                     min (closest_idx + length reference_route div 4) (length reference_route - 1)
               in Inr (forward_idx, reference_route ! forward_idx))"

section \<open>Route composer\<close>

text \<open>The loop that sums \<open>calculate_distance\<close> over consecutive pairs, from \<open>acc\<close>.\<close>

fun sum_legs :: "geodesic \<Rightarrow> string \<Rightarrow> real \<Rightarrow> coord list \<Rightarrow> real" where
  "sum_legs g units acc (a # b # rest) =
     sum_legs g units (acc + calculate_distance g a b units) (b # rest)"
| "sum_legs g units acc [a] = acc"
| "sum_legs g units acc [] = acc"

definition total_distance :: "geodesic \<Rightarrow> string \<Rightarrow> coord list \<Rightarrow> real" where
  "total_distance g units route_coords = sum_legs g units 0 route_coords"

definition duration_hours :: "real \<Rightarrow> string \<Rightarrow> real" where
  "duration_hours total_dist units =
     (if units = ''naut'' then total_dist / 24.0 else total_dist / 44.448)"

text \<open>\<open>if coords[-1] != destination: coords.append(destination)\<close>, on a non-empty list.\<close>

definition ensure_destination :: "coord list \<Rightarrow> coord \<Rightarrow> coord list" where
  "ensure_destination coords destination =
     (if last coords \<noteq> destination then coords @ [destination] else coords)"

text \<open>
  \<open>create_optimized_route_from_position(ship_position, destination, reference_route,
  units)\<close>. The branch \<open>merge_idx is None\<close> of the source is never taken, since
  \<open>find_optimal_merge_point\<close> returns an index or raises.
\<close>

definition create_optimized_route_from_position ::
  "geodesic \<Rightarrow> pathfinder \<Rightarrow> coord \<Rightarrow> coord \<Rightarrow> coord list option \<Rightarrow> string \<Rightarrow> exn + feature" where
  "create_optimized_route_from_position g searoute ship_position destination reference_route units =
     (case (case reference_route of
              Some r \<Rightarrow> Inr r
            | None \<Rightarrow>
                (case searoute ship_position destination units of
                   None \<Rightarrow> Inl RefRouteError
                 | Some ref_feature \<Rightarrow> Inr (coordinates (geometry ref_feature)))) of
        Inl e \<Rightarrow> Inl e
      | Inr route \<Rightarrow>
          (case find_optimal_merge_point g ship_position route 200 of
             Inl e \<Rightarrow> Inl e
           | Inr (merge_idx, merge_point) \<Rightarrow>
               let merge_dist = g ship_position merge_point * 1000;
                   route_coords =
                     [ship_position] @ (if merge_dist > 100 then [merge_point] else [])
                       @ drop (merge_idx + 1) route;
                   route_coords = ensure_destination route_coords destination;
                   total_dist = total_distance g units route_coords
               in Inr \<lparr>ftype = ''Feature'',
                       geometry = \<lparr>gtype = ''LineString'', coordinates = route_coords\<rparr>,
                       properties =
                         map_of
                           [(''length'', PNum total_dist),
                            (''units'', PStr units),
                            (''duration_hours'', PNum (duration_hours total_dist units)),
                            (''route_type'', PStr ''optimized_from_position''),
                            (''merge_point_index'', PInt (int merge_idx))]\<rparr>))"

section \<open>Guided route builder\<close>

text \<open>\<open>range(i, stop, step)\<close> for a positive step.\<close>

function py_range :: "nat \<Rightarrow> nat \<Rightarrow> nat \<Rightarrow> nat list" where
  "py_range i stop step =
     (if 0 < step \<and> i < stop then i # py_range (i + step) stop step else [])"
  by pat_completeness auto
termination
  by (relation "measure (\<lambda>(i, stop, step). stop - i)") auto

declare py_range.simps [simp del]

text \<open>
  The loop over \<open>range(1, min(len(reference_coords), 5))\<close>, on the state
  \<open>(best_start_idx, best_bearing_diff)\<close>.
\<close>

fun best_start_scan ::
  "coord \<Rightarrow> real \<Rightarrow> coord list \<Rightarrow> nat list \<Rightarrow> nat \<times> real \<Rightarrow> nat \<times> real" where
  "best_start_scan ship_position ship_to_dest_bearing reference_coords [] st = st"
| "best_start_scan ship_position ship_to_dest_bearing reference_coords (i # rest)
     (best_start_idx, best_bearing_diff) =
     (let bearing_to_ref_point = bearing ship_position (reference_coords ! i);
          bearing_diff = ang_diff bearing_to_ref_point ship_to_dest_bearing
      in if bearing_diff < best_bearing_diff
         then best_start_scan ship_position ship_to_dest_bearing reference_coords rest
                (i, bearing_diff)
         else best_start_scan ship_position ship_to_dest_bearing reference_coords rest
                (best_start_idx, best_bearing_diff))"

text \<open>
  The body of \<open>if len(reference_coords) > 2\<close>: the waypoints appended to \<open>new_coords\<close>.
  \<open>range\<close> raises ValueError on step 0 and is empty on a negative step, the start being
  below the stop; \<open>//\<close> is floor division, as \<open>div\<close> on \<open>int\<close> is.
\<close>

definition guided_waypoints :: "coord \<Rightarrow> coord \<Rightarrow> coord list \<Rightarrow> int \<Rightarrow> exn + coord list" where
  "guided_waypoints ship_position destination reference_coords waypoint_spacing =
     (let n = length reference_coords;
          ship_to_dest_bearing = bearing ship_position destination;
          best_start_idx =
            fst (best_start_scan ship_position ship_to_dest_bearing reference_coords
                   [1..<min n 5] (1, 180))
      in if waypoint_spacing = 0 then Inl ValueError
         else
           let sampled =
                 (if 0 < waypoint_spacing
                  then map (\<lambda>i. reference_coords ! i)
                         (py_range best_start_idx n (nat waypoint_spacing))
                  else []);
               last_added_idx =
                 int best_start_idx
                   + ((int n - int best_start_idx - 1) div waypoint_spacing) * waypoint_spacing
           in Inr (sampled @
                   (if int n > waypoint_spacing \<and> last_added_idx < int n - 2
                    then [reference_coords ! (n - 2)] else [])))"

text \<open>The loop that removes consecutive duplicates, on the list \<open>filtered_coords\<close>.\<close>

fun dedup_scan :: "coord list \<Rightarrow> coord list \<Rightarrow> coord list" where
  "dedup_scan filtered_coords [] = filtered_coords"
| "dedup_scan filtered_coords (c # rest) =
     (if c \<noteq> last filtered_coords then dedup_scan (filtered_coords @ [c]) rest
      else dedup_scan filtered_coords rest)"

text \<open>
  The first part of \<open>create_guided_route\<close>: the reference route of the pathfinder, and
  when it has at most 2 points the retry between the offset points, whose result is
  taken only if it has more than 2 points and whose exceptions are swallowed.
\<close>

definition reference_after_retry ::
  "pathfinder \<Rightarrow> coord \<Rightarrow> coord \<Rightarrow> string \<Rightarrow> exn + coord list" where
  "reference_after_retry searoute ship_position destination units =
     (case searoute ship_position destination units of
        None \<Rightarrow> Inl RefRouteError
      | Some ref_feature \<Rightarrow>
          let reference_coords = coordinates (geometry ref_feature)
          in if length reference_coords \<le> 2
             then
               (let offset_origin = (fst ship_position + 0.1, snd ship_position + 0.1);
                    offset_dest = (fst destination - 0.1, snd destination - 0.1)
                in case searoute offset_origin offset_dest units of
                     None \<Rightarrow> Inr reference_coords
                   | Some alt_feature \<Rightarrow>
                       if length (coordinates (geometry alt_feature)) > 2
                       then Inr (coordinates (geometry alt_feature))
                       else Inr reference_coords)
             else Inr reference_coords)"

text \<open>
  \<open>create_guided_route(ship_position, destination, units, waypoint_spacing)\<close>, from the
  reference route on.
\<close>

definition create_guided_route ::
  "geodesic \<Rightarrow> pathfinder \<Rightarrow> coord \<Rightarrow> coord \<Rightarrow> string \<Rightarrow> int \<Rightarrow> exn + feature" where
  "create_guided_route g searoute ship_position destination units waypoint_spacing =
     (case reference_after_retry searoute ship_position destination units of
        Inl e \<Rightarrow> Inl e
      | Inr reference_coords \<Rightarrow>
          (case (if length reference_coords > 2
                 then guided_waypoints ship_position destination reference_coords
                        waypoint_spacing
                 else Inr []) of
             Inl e \<Rightarrow> Inl e
           | Inr waypoints \<Rightarrow>
               let new_coords = ensure_destination ([ship_position] @ waypoints) destination;
                   filtered_coords = dedup_scan [hd new_coords] (tl new_coords);
                   total_dist = total_distance g units filtered_coords
               in Inr \<lparr>ftype = ''Feature'',
                       geometry = \<lparr>gtype = ''LineString'', coordinates = filtered_coords\<rparr>,
                       properties =
                         map_of
                           [(''length'', PNum total_dist),
                            (''units'', PStr units),
                            (''duration_hours'', PNum (duration_hours total_dist units)),
                            (''route_type'', PStr ''guided''),
                            (''reference_points_used'', PInt (int (length reference_coords))),
                            (''waypoints_created'', PInt (int (length filtered_coords)))]\<rparr>))"

section \<open>The /route handler and its course filter\<close>

text \<open>The \<open>while i_keep < len(coords)\<close> loop; the result is the final \<open>i_keep\<close>.\<close>

function keep_scan :: "coord list \<Rightarrow> real \<Rightarrow> real \<Rightarrow> nat \<Rightarrow> nat" where
  "keep_scan coords course heading_tol i_keep =
     (if i_keep < length coords
      then
        (if ang_diff (bearing (coords ! 0) (coords ! i_keep)) course \<le> heading_tol
         then i_keep
         else keep_scan coords course heading_tol (i_keep + 1))
      else i_keep)"
  by pat_completeness auto
termination
  by (relation "measure (\<lambda>(coords, course, heading_tol, i_keep). length coords - i_keep)") auto

declare keep_scan.simps [simp del]

text \<open>
  The course filtering of the handler, on the feature a strategy returned: nothing when
  no course is given or the route has at most one coordinate.
\<close>

definition course_filter ::
  "geodesic \<Rightarrow> feature \<Rightarrow> coord \<Rightarrow> string \<Rightarrow> real option \<Rightarrow> real \<Rightarrow> feature" where
  "course_filter g feature destination units course heading_tol =
     (let coords = coordinates (geometry feature)
      in case course of
           None \<Rightarrow> feature
         | Some c \<Rightarrow>
             if length coords > 1
             then
               (let i_keep = keep_scan coords c heading_tol 1;
                    filtered_coords =
                      ensure_destination ([coords ! 0] @ drop i_keep coords) destination;
                    total_dist = total_distance g units filtered_coords
                in feature
                     \<lparr>geometry := (geometry feature)\<lparr>coordinates := filtered_coords\<rparr>,
                      properties :=
                        ((properties feature)(''length'' \<mapsto> PNum total_dist))
                          (''duration_hours'' \<mapsto> PNum (duration_hours total_dist units))\<rparr>)
             else feature)"

text \<open>The choice of the strategy by \<open>route_type\<close>, with the default spacing 3.\<close>

definition route_for_type ::
  "geodesic \<Rightarrow> pathfinder \<Rightarrow> coord \<Rightarrow> coord \<Rightarrow> string \<Rightarrow> string \<Rightarrow> exn + feature" where
  "route_for_type g searoute ship_position destination units route_type =
     (if route_type = ''optimized''
      then create_optimized_route_from_position g searoute ship_position destination None units
      else if route_type = ''guided''
      then create_guided_route g searoute ship_position destination units 3
      else (case searoute ship_position destination units of
              None \<Rightarrow> Inl SearouteError
            | Some feature \<Rightarrow> Inr feature))"

text \<open>\<open>get_route\<close>, the handler of \<open>GET /route\<close>: every exception becomes a 500.\<close>

definition get_route ::
  "geodesic \<Rightarrow> pathfinder \<Rightarrow> real \<Rightarrow> real \<Rightarrow> real \<Rightarrow> real \<Rightarrow> string \<Rightarrow> real option \<Rightarrow> real
     \<Rightarrow> string \<Rightarrow> http_error + feature" where
  "get_route g searoute start_lat start_lng end_lat end_lng units course heading_tol route_type =
     (let ship_position = (start_lng, start_lat);
          destination = (end_lng, end_lat)
      in case route_for_type g searoute ship_position destination units route_type of
           Inl e \<Rightarrow> Inl (HTTP500 e)
         | Inr feature \<Rightarrow>
             Inr (course_filter g feature destination units course heading_tol))"

text \<open>A pathfinder of the concrete runs that answers every request with the route \<open>r\<close>.\<close>

definition fixed_route :: "coord list \<Rightarrow> pathfinder" where
  "fixed_route r origin destination units =
     Some \<lparr>ftype = ''Feature'',
           geometry = \<lparr>gtype = ''LineString'', coordinates = r\<rparr>,
           properties = map_of [(''units'', PStr units)]\<rparr>"

text \<open>
  What a caller reads in a result: the coordinate sequence of the returned feature and
  the value of one of its properties, \<open>None\<close> when an exception was raised instead.
\<close>

definition coords_of :: "'e + feature \<Rightarrow> coord list option" where
  "coords_of r = (case r of Inl e \<Rightarrow> None | Inr f \<Rightarrow> Some (coordinates (geometry f)))"

definition property_of :: "'e + feature \<Rightarrow> string \<Rightarrow> pval option" where
  "property_of r key = (case r of Inl e \<Rightarrow> None | Inr f \<Rightarrow> properties f key)"

text \<open>
  The pathfinder of the concrete runs: it finds no sea path and answers with the
  two-point straight line from origin to destination.
\<close>

definition straight_line :: pathfinder where
  "straight_line origin destination units =
     Some \<lparr>ftype = ''Feature'',
           geometry = \<lparr>gtype = ''LineString'', coordinates = [origin, destination]\<rparr>,
           properties = map_of [(''units'', PStr units)]\<rparr>"

section \<open>Loop invariants\<close>

text \<open>
  The invariant of the first loop of the selector after the prefix \<open>pre\<close> of the route:
  \<open>closest_idx\<close> is the first index of a point of least distance.
\<close>

definition closest_inv :: "geodesic \<Rightarrow> coord \<Rightarrow> coord list \<Rightarrow> real option \<times> nat \<Rightarrow> bool" where
  "closest_inv g s pre st =
     (case fst st of
        None \<Rightarrow> pre = [] \<and> snd st = 0
      | Some v \<Rightarrow>
          snd st < length pre \<and> v = g s (pre ! snd st) \<and>
          (\<forall>j < length pre. v \<le> g s (pre ! j)) \<and>
          (\<forall>j < snd st. v < g s (pre ! j)))"

text \<open>
  The score the second loop gives a point within the deviation bound, and the
  invariant of that loop before index \<open>i\<close>, for a scan that started at \<open>c\<close>: the
  best candidate so far is the first one of least score among those within the bound.
\<close>

definition merge_score :: "geodesic \<Rightarrow> coord \<Rightarrow> coord list \<Rightarrow> coord \<Rightarrow> real" where
  "merge_score g s route p = g s p + ang_diff (bearing s p) (bearing s (last route)) * 2"

definition merge_inv ::
  "geodesic \<Rightarrow> coord \<Rightarrow> coord list \<Rightarrow> real \<Rightarrow> nat \<Rightarrow> nat \<Rightarrow> merge_state \<Rightarrow> bool" where
  "merge_inv g s route maxdev c i st =
     (case best_merge st of
        None \<Rightarrow> best_score st = None \<and> (\<forall>j \<in> {c..<i}. maxdev < g s (route ! j))
      | Some (k, p) \<Rightarrow>
          k \<in> {c..<i} \<and> p = route ! k \<and> g s p \<le> maxdev \<and>
          best_score st = Some (merge_score g s route p) \<and>
          (\<forall>j \<in> {c..<i}. g s (route ! j) \<le> maxdev \<longrightarrow>
               merge_score g s route p \<le> merge_score g s route (route ! j)) \<and>
          (\<forall>j \<in> {c..<k}. g s (route ! j) \<le> maxdev \<longrightarrow>
               merge_score g s route p < merge_score g s route (route ! j)))"

text \<open>
  The score of a candidate as the specification words it, with the destination the
  caller supplied to the composer, for comparison with the score of the loop.
\<close>

definition spec_merge_score :: "geodesic \<Rightarrow> coord \<Rightarrow> coord \<Rightarrow> coord \<Rightarrow> real" where
  "spec_merge_score g start destination p =
     g start p + 2 * ang_diff (bearing start p) (bearing start destination)"

section \<open>Unit conversion\<close>

text \<open>
  C8: for every pair of coordinates, the distance in nautical miles is the distance in
  kilometres times 0.539957 and the distance in miles is the distance in kilometres
  times 0.621371 (exactly, hence within any relative tolerance), and every units string
  other than "km" and "naut" gives the miles value.
\<close>

theorem calculate_distance_units:
  "calculate_distance g p1 p2 ''naut'' = calculate_distance g p1 p2 ''km'' * 0.539957 \<and>
   calculate_distance g p1 p2 ''mi'' = calculate_distance g p1 p2 ''km'' * 0.621371 \<and>
   (u \<noteq> ''km'' \<and> u \<noteq> ''naut'' \<longrightarrow>
      calculate_distance g p1 p2 u = calculate_distance g p1 p2 ''mi'')"
  by (simp add: calculate_distance_def)

theorem calculate_distance_units_witness:
  "''feet'' \<noteq> ''km'' \<and> ''feet'' \<noteq> ''naut'' \<and>
   calculate_distance equator_km (0, 0) (2, 0) ''naut'' =
     calculate_distance equator_km (0, 0) (2, 0) ''km'' * 0.539957 \<and>
   calculate_distance equator_km (0, 0) (2, 0) ''feet'' =
     calculate_distance equator_km (0, 0) (2, 0) ''mi'' \<and>
   calculate_distance equator_km (0, 0) (2, 0) ''feet'' = 222.639 * 0.621371"
  using calculate_distance_units [of equator_km "(0, 0)" "(2, 0)" "''feet''"]
  by (simp add: calculate_distance_def equator_km_def)

section \<open>The closest point of the reference route\<close>

lemma closest_inv_step:
  assumes "closest_inv g s pre (m, c)"
  shows "closest_inv g s (pre @ [p])
           (if below_inf (g s p) m then (Some (g s p), length pre) else (m, c))"
proof (cases m)
  case None
  with assms show ?thesis
    by (simp add: closest_inv_def below_inf_def)
next
  case (Some v)
  with assms have c: "c < length pre" and v: "v = g s (pre ! c)"
    and lo: "\<forall>j < length pre. v \<le> g s (pre ! j)"
    and fi: "\<forall>j < c. v < g s (pre ! j)"
    by (auto simp: closest_inv_def)
  show ?thesis
  proof (cases "g s p < v")
    case True
    have "\<forall>j < Suc (length pre). g s p \<le> g s ((pre @ [p]) ! j)"
      using lo True by (auto simp: nth_append less_Suc_eq)
    moreover have "\<forall>j < length pre. g s p < g s ((pre @ [p]) ! j)"
      using lo True by (auto simp: nth_append)
    ultimately show ?thesis
      using Some True by (simp add: closest_inv_def below_inf_def)
  next
    case False
    have "\<forall>j < Suc (length pre). v \<le> g s ((pre @ [p]) ! j)"
      using lo False by (auto simp: nth_append less_Suc_eq)
    moreover have "\<forall>j < c. v < g s ((pre @ [p]) ! j)"
      using fi c by (auto simp: nth_append)
    ultimately show ?thesis
      using Some False c v by (simp add: closest_inv_def below_inf_def nth_append)
  qed
qed

lemma closest_scan_inv:
  "closest_inv g s pre st \<Longrightarrow>
   closest_inv g s (pre @ ps) (closest_scan g s ps (length pre) st)"
proof (induction ps arbitrary: pre st)
  case Nil
  then show ?case by simp
next
  case (Cons p ps)
  obtain m c where st: "st = (m, c)" by (cases st)
  let ?st' = "if below_inf (g s p) m then (Some (g s p), length pre) else (m, c)"
  have "closest_inv g s (pre @ [p]) ?st'"
    using Cons.prems st closest_inv_step by simp
  from Cons.IH [OF this]
  show ?case by (cases "below_inf (g s p) m") (simp_all add: st Let_def)
qed

lemma closest_index_empty: "closest_index g s [] = 0"
  by (simp add: closest_index_def)

lemma closest_index_least:
  assumes "route \<noteq> []"
  shows "closest_index g s route < length route"
    and "\<forall>j < length route. g s (route ! closest_index g s route) \<le> g s (route ! j)"
    and "\<forall>j < closest_index g s route. g s (route ! closest_index g s route) < g s (route ! j)"
proof -
  have "closest_inv g s [] (None, 0)" by (simp add: closest_inv_def)
  from closest_scan_inv [OF this, of route]
  have inv: "closest_inv g s route (closest_scan g s route 0 (None, 0))" by simp
  obtain m c where r: "closest_scan g s route 0 (None, 0) = (m, c)"
    by (cases "closest_scan g s route 0 (None, 0)")
  from inv r assms obtain v where "m = Some v"
    by (cases m) (auto simp: closest_inv_def)
  with inv r show "closest_index g s route < length route"
    and "\<forall>j < length route. g s (route ! closest_index g s route) \<le> g s (route ! j)"
    and "\<forall>j < closest_index g s route. g s (route ! closest_index g s route) < g s (route ! j)"
    by (auto simp: closest_inv_def closest_index_def)
qed

section \<open>The scan for the merge point\<close>

lemma merge_step_far:
  "maxdev < g s (route ! i) \<Longrightarrow> merge_step g s route maxdev i st = st"
  by (simp add: merge_step_def Let_def)

lemma merge_step_near:
  "\<not> maxdev < g s (route ! i) \<Longrightarrow>
   merge_step g s route maxdev i st =
     (if below_inf (merge_score g s route (route ! i)) (best_score st)
      then \<lparr>best_score = Some (merge_score g s route (route ! i)),
            best_merge = Some (i, route ! i)\<rparr>
      else st)"
  by (simp add: merge_step_def Let_def merge_score_def)

lemma merge_step_inv:
  assumes ci: "c \<le> i" and inv: "merge_inv g s route maxdev c i st"
  shows "merge_inv g s route maxdev c (Suc i) (merge_step g s route maxdev i st)"
proof -
  have ins: "{c..<Suc i} = insert i {c..<i}"
    using ci by (simp add: atLeastLessThanSuc)
  show ?thesis
  proof (cases "maxdev < g s (route ! i)")
    case True
    show ?thesis
    proof (cases "best_merge st")
      case None
      with inv True show ?thesis
        by (simp add: merge_step_far merge_inv_def ins)
    next
      case (Some kp)
      obtain k p where kp: "kp = (k, p)" by (cases kp)
      from inv Some kp True show ?thesis
        by (auto simp: merge_step_far merge_inv_def ins)
    qed
  next
    case near: False
    show ?thesis
    proof (cases "best_merge st")
      case None
      with inv have bs: "best_score st = None"
        and far: "\<forall>j \<in> {c..<i}. maxdev < g s (route ! j)"
        by (simp_all add: merge_inv_def)
      have st': "merge_step g s route maxdev i st =
          \<lparr>best_score = Some (merge_score g s route (route ! i)),
           best_merge = Some (i, route ! i)\<rparr>"
        using near bs by (simp add: merge_step_near below_inf_def)
      have "\<forall>j \<in> {c..<i}. \<not> g s (route ! j) \<le> maxdev"
        using far by (simp add: not_le)
      then show ?thesis
        using near ci by (simp add: st' merge_inv_def ins)
    next
      case (Some kp)
      obtain k p where kp: "kp = (k, p)" by (cases kp)
      from inv Some kp have k: "k \<in> {c..<i}" and p: "p = route ! k"
        and pd: "g s p \<le> maxdev"
        and sc: "best_score st = Some (merge_score g s route p)"
        and lo: "\<forall>j \<in> {c..<i}. g s (route ! j) \<le> maxdev \<longrightarrow>
                   merge_score g s route p \<le> merge_score g s route (route ! j)"
        and fi: "\<forall>j \<in> {c..<k}. g s (route ! j) \<le> maxdev \<longrightarrow>
                   merge_score g s route p < merge_score g s route (route ! j)"
        by (auto simp: merge_inv_def)
      show ?thesis
      proof (cases "merge_score g s route (route ! i) < merge_score g s route p")
        case True
        have st': "merge_step g s route maxdev i st =
            \<lparr>best_score = Some (merge_score g s route (route ! i)),
             best_merge = Some (i, route ! i)\<rparr>"
          using near sc True by (simp add: merge_step_near below_inf_def)
        have "\<forall>j \<in> {c..<i}. g s (route ! j) \<le> maxdev \<longrightarrow>
                merge_score g s route (route ! i) < merge_score g s route (route ! j)"
        proof (intro ballI impI)
          fix j assume "j \<in> {c..<i}" "g s (route ! j) \<le> maxdev"
          with lo have "merge_score g s route p \<le> merge_score g s route (route ! j)"
            by blast
          with True show "merge_score g s route (route ! i) < merge_score g s route (route ! j)"
            by simp
        qed
        moreover from this
        have "\<forall>j \<in> {c..<i}. g s (route ! j) \<le> maxdev \<longrightarrow>
                merge_score g s route (route ! i) \<le> merge_score g s route (route ! j)"
          by (simp add: less_imp_le)
        ultimately show ?thesis
          using near ci by (simp add: st' merge_inv_def ins)
      next
        case False
        have st': "merge_step g s route maxdev i st = st"
          using near sc False by (simp add: merge_step_near below_inf_def)
        have "g s (route ! i) \<le> maxdev \<longrightarrow>
                merge_score g s route p \<le> merge_score g s route (route ! i)"
          using False by simp
        then show ?thesis
          using k p pd sc lo fi Some kp by (simp add: st' merge_inv_def ins)
      qed
    qed
  qed
qed

lemma merge_scan_inv:
  "c \<le> i \<Longrightarrow> i \<le> length route \<Longrightarrow> merge_inv g s route maxdev c i st \<Longrightarrow>
   merge_inv g s route maxdev c (length route) (merge_scan g s route maxdev i st)"
proof (induction g s route maxdev i st rule: merge_scan.induct)
  case (1 g s route maxdev i st)
  show ?case
  proof (cases "i < length route")
    case True
    have "merge_inv g s route maxdev c (Suc i) (merge_step g s route maxdev i st)"
      using "1.prems" by (simp add: merge_step_inv)
    with "1.IH" [OF True] "1.prems" True show ?thesis
      by (subst merge_scan.simps) simp
  next
    case False
    with "1.prems" show ?thesis
      by (subst merge_scan.simps) simp
  qed
qed

lemma merge_scan_final:
  "merge_inv g s route maxdev (closest_index g s route) (length route)
     (merge_scan g s route maxdev (closest_index g s route)
        \<lparr>best_score = None, best_merge = None\<rparr>)"
proof (cases "route = []")
  case True
  then show ?thesis
    by (subst merge_scan.simps) (simp add: closest_index_empty merge_inv_def)
next
  case False
  then have "closest_index g s route \<le> length route"
    using closest_index_least(1) [of route g s] by simp
  moreover have "merge_inv g s route maxdev (closest_index g s route) (closest_index g s route)
      \<lparr>best_score = None, best_merge = None\<rparr>"
    by (simp add: merge_inv_def)
  ultimately show ?thesis by (simp add: merge_scan_inv)
qed

section \<open>Bearings along the equator\<close>

lemma py_mod_450: "py_mod 450 360 = 90"
  by (simp add: py_mod_def)

lemma py_mod_270: "py_mod 270 360 = 270"
  by (simp add: py_mod_def)

lemma sin_degrees_pos:
  assumes "0 < d" "d < 180"
  shows "0 < sin (d * pi / 180)"
proof -
  have "0 < d * pi / 180" using assms by simp
  moreover have "d * pi / 180 < pi" using assms by simp
  ultimately show ?thesis by (rule sin_gt_zero)
qed

lemma bearing_equator_east:
  assumes "0 < d" "d < 180"
  shows "bearing (a, 0) (a + d, 0) = 90"
proof -
  have e: "radians (a + d) - radians a = d * pi / 180"
    by (simp add: radians_def algebra_simps add_divide_distrib)
  have r0: "radians 0 = 0" by (simp add: radians_def)
  show ?thesis
    using sin_degrees_pos [OF assms]
    by (simp add: bearing_def Let_def e r0 atan2_def degrees_def py_mod_450)
qed

lemma bearing_equator_west:
  assumes "0 < d" "d < 180"
  shows "bearing (a, 0) (a - d, 0) = 270"
proof -
  have e: "radians (a - d) - radians a = - (d * pi / 180)"
    by (simp add: radians_def algebra_simps diff_divide_distrib)
  have r0: "radians 0 = 0" by (simp add: radians_def)
  show ?thesis
    using sin_degrees_pos [OF assms]
    by (simp add: bearing_def Let_def e r0 atan2_def degrees_def py_mod_270)
qed

lemma ang_diff_values:
  "ang_diff 90 270 = 180" "ang_diff 270 90 = 180" "ang_diff 90 90 = 0" "ang_diff 270 270 = 0"
  by (simp_all add: ang_diff_def py_mod_def)

lemma bearing_0_1: "bearing (0, 0) (1, 0) = 90"
  using bearing_equator_east [of 1 0] by simp

lemma bearing_0_m1: "bearing (0, 0) (- 1, 0) = 270"
  using bearing_equator_west [of 1 0] by simp

lemma bearing_0_m2: "bearing (0, 0) (- 2, 0) = 270"
  using bearing_equator_west [of 2 0] by simp

section \<open>The merge point selector\<close>

lemma find_optimal_merge_point_result:
  assumes "route \<noteq> []"
  shows "(find_optimal_merge_point g s route maxdev =
            Inr (min (closest_index g s route + length route div 4) (length route - 1),
                 route ! min (closest_index g s route + length route div 4) (length route - 1)) \<and>
          (\<forall>j \<in> {closest_index g s route..<length route}. maxdev < g s (route ! j))) \<or>
         (\<exists>k \<in> {closest_index g s route..<length route}.
            find_optimal_merge_point g s route maxdev = Inr (k, route ! k) \<and>
            g s (route ! k) \<le> maxdev \<and>
            (\<forall>j \<in> {closest_index g s route..<length route}. g s (route ! j) \<le> maxdev \<longrightarrow>
               merge_score g s route (route ! k) \<le> merge_score g s route (route ! j)) \<and>
            (\<forall>j \<in> {closest_index g s route..<k}. g s (route ! j) \<le> maxdev \<longrightarrow>
               merge_score g s route (route ! k) < merge_score g s route (route ! j)))"
proof -
  let ?c = "closest_index g s route"
  let ?st = "merge_scan g s route maxdev ?c \<lparr>best_score = None, best_merge = None\<rparr>"
  have inv: "merge_inv g s route maxdev ?c (length route) ?st"
    by (rule merge_scan_final)
  show ?thesis
  proof (cases "best_merge ?st")
    case None
    with inv assms show ?thesis
      by (simp add: merge_inv_def find_optimal_merge_point_def Let_def)
  next
    case (Some kp)
    obtain k p where kp: "kp = (k, p)" by (cases kp)
    from inv Some kp have "k \<in> {?c..<length route}" "p = route ! k"
      "g s (route ! k) \<le> maxdev"
      "\<forall>j \<in> {?c..<length route}. g s (route ! j) \<le> maxdev \<longrightarrow>
         merge_score g s route (route ! k) \<le> merge_score g s route (route ! j)"
      "\<forall>j \<in> {?c..<k}. g s (route ! j) \<le> maxdev \<longrightarrow>
         merge_score g s route (route ! k) < merge_score g s route (route ! j)"
      by (auto simp: merge_inv_def)
    moreover have "find_optimal_merge_point g s route maxdev = Inr (k, p)"
      using Some kp by (simp add: find_optimal_merge_point_def Let_def)
    ultimately show ?thesis by blast
  qed
qed

lemma closest_index_far:
  "closest_index equator_km (0, 0) [(5, 0), (6, 0), (7, 0), (8, 0), (9, 0)] = 0"
  by (simp add: closest_index_def Let_def below_inf_def equator_km_def)

lemma bearing_2_east: "bearing (2, 0) (5 / 2, 0) = 90" "bearing (2, 0) (6, 0) = 90"
  using bearing_equator_east [of "1 / 2" 2] bearing_equator_east [of 4 2] by simp_all

lemma closest_index_middle:
  "closest_index equator_km (2, 0) [(0, 0), (5 / 2, 0), (4, 0), (6, 0)] = 1"
  by (simp add: closest_index_def Let_def below_inf_def equator_km_def)

lemma merge_point_middle:
  "find_optimal_merge_point equator_km (2, 0) [(0, 0), (5 / 2, 0), (4, 0), (6, 0)] 200
     = Inr (1, (5 / 2, 0))"
  by (simp add: find_optimal_merge_point_def closest_index_middle merge_scan.simps
      merge_step_def Let_def below_inf_def equator_km_def bearing_2_east ang_diff_values)

lemma closest_index_west_east:
  "closest_index equator_km (0, 0) [(- 1, 0), (1, 0)] = 0"
  by (simp add: closest_index_def Let_def below_inf_def equator_km_def)

lemma merge_point_west_east:
  "find_optimal_merge_point equator_km (0, 0) [(- 1, 0), (1, 0)] 200 = Inr (1, (1, 0))"
  by (simp add: find_optimal_merge_point_def closest_index_west_east merge_scan.simps
      merge_step_def Let_def below_inf_def equator_km_def bearing_0_1 bearing_0_m1
      ang_diff_values)

text \<open>
  C5: for every non-empty reference route the selector returns one pair of an index
  within the route and the route's coordinate at that index, and never raises; when no
  candidate from \<open>closest_idx\<close> on lies within \<open>max_deviation_km\<close> of the ship, the
  index is \<open>min(closest_idx + len(route) // 4, len(route) - 1)\<close>.
\<close>

theorem find_optimal_merge_point_total:
  assumes "route \<noteq> []"
  shows "(\<exists>i p. find_optimal_merge_point g s route maxdev = Inr (i, p) \<and>
                i < length route \<and> p = route ! i) \<and>
         ((\<forall>j. closest_index g s route \<le> j \<and> j < length route \<longrightarrow> maxdev < g s (route ! j)) \<longrightarrow>
          find_optimal_merge_point g s route maxdev =
            Inr (min (closest_index g s route + length route div 4) (length route - 1),
                 route ! min (closest_index g s route + length route div 4) (length route - 1)))"
proof -
  let ?f = "min (closest_index g s route + length route div 4) (length route - 1)"
  have "0 < length route" using assms by simp
  then have f: "?f < length route" by linarith
  from find_optimal_merge_point_result [OF assms, of g s maxdev]
  show ?thesis
  proof (elim disjE conjE bexE)
    assume "find_optimal_merge_point g s route maxdev = Inr (?f, route ! ?f)"
    with f show ?thesis by simp
  next
    fix k
    assume k: "k \<in> {closest_index g s route..<length route}"
      and r: "find_optimal_merge_point g s route maxdev = Inr (k, route ! k)"
      and near: "g s (route ! k) \<le> maxdev"
    have nall: "\<not> (\<forall>j. closest_index g s route \<le> j \<and> j < length route \<longrightarrow> maxdev < g s (route ! j))"
      using k near by (auto simp: not_less)
    have "\<exists>i p. find_optimal_merge_point g s route maxdev = Inr (i, p) \<and>
                i < length route \<and> p = route ! i"
      using k r by simp
    with nall show ?thesis by blast
  qed
qed

theorem find_optimal_merge_point_total_witness:
  "[(5, 0), (6, 0), (7, 0), (8, 0), (9, 0) :: coord] \<noteq> [] \<and>
   200 < equator_km (0, 0) (5, 0) \<and>
   closest_index equator_km (0, 0) [(5, 0), (6, 0), (7, 0), (8, 0), (9, 0)] = 0 \<and>
   find_optimal_merge_point equator_km (0, 0) [(5, 0), (6, 0), (7, 0), (8, 0), (9, 0)] 200
     = Inr (1, (6, 0))"
proof -
  let ?r = "[(5, 0), (6, 0), (7, 0), (8, 0), (9, 0) :: coord]"
  have ne: "?r \<noteq> []" by simp
  have far: "\<forall>j. closest_index equator_km (0, 0) ?r \<le> j \<and> j < length ?r \<longrightarrow>
               200 < equator_km (0, 0) (?r ! j)"
    by (auto simp: equator_km_def nth_Cons' less_Suc_eq numeral_eq_Suc)
  from find_optimal_merge_point_total [OF ne, of equator_km "(0, 0)" 200] far
  have "find_optimal_merge_point equator_km (0, 0) ?r 200 =
          Inr (min (closest_index equator_km (0, 0) ?r + length ?r div 4) (length ?r - 1),
               ?r ! min (closest_index equator_km (0, 0) ?r + length ?r div 4) (length ?r - 1))"
    by blast
  then have "find_optimal_merge_point equator_km (0, 0) ?r 200 = Inr (1, (6, 0))"
    by (simp add: closest_index_far)
  then show ?thesis
    by (simp add: closest_index_far equator_km_def)
qed

text \<open>
  C6: for every non-empty reference route and every ship position, the returned index
  is at least \<open>closest_idx\<close>, and \<open>closest_idx\<close> is an index of the route whose point has
  the least distance to the ship.
\<close>

theorem merge_index_forward:
  assumes "route \<noteq> []"
    and "find_optimal_merge_point g s route maxdev = Inr (i, p)"
  shows "closest_index g s route \<le> i \<and> closest_index g s route < length route \<and>
         (\<forall>j. j < length route \<longrightarrow> g s (route ! closest_index g s route) \<le> g s (route ! j))"
proof -
  have c: "closest_index g s route < length route"
    and least: "\<forall>j < length route. g s (route ! closest_index g s route) \<le> g s (route ! j)"
    using closest_index_least [OF assms(1)] by blast+
  from find_optimal_merge_point_result [OF assms(1), of g s maxdev] assms(2)
  have "closest_index g s route \<le> i"
    using c by (auto simp: min_def)
  with c least show ?thesis by simp
qed

theorem merge_index_forward_witness:
  "[(0, 0), (5 / 2, 0), (4, 0), (6, 0) :: coord] \<noteq> [] \<and>
   find_optimal_merge_point equator_km (2, 0) [(0, 0), (5 / 2, 0), (4, 0), (6, 0)] 200
     = Inr (1, (5 / 2, 0)) \<and>
   closest_index equator_km (2, 0) [(0, 0), (5 / 2, 0), (4, 0), (6, 0)] \<le> 1 \<and>
   closest_index equator_km (2, 0) [(0, 0), (5 / 2, 0), (4, 0), (6, 0)] = 1"
proof -
  have ne: "[(0, 0), (5 / 2, 0), (4, 0), (6, 0) :: coord] \<noteq> []" by simp
  from merge_index_forward [OF ne merge_point_middle]
  have "closest_index equator_km (2, 0) [(0, 0), (5 / 2, 0), (4, 0), (6, 0)] \<le> 1"
    by blast
  with merge_point_middle closest_index_middle show ?thesis by simp
qed

text \<open>
  C4, as amended: when some candidate from \<open>closest_idx\<close> on lies within the bound, the
  selector returns the first candidate of least score among them, the score of
  candidate \<open>j\<close> being its distance to the ship plus twice the angular difference between
  the bearing from the ship to it and the bearing from the ship to the last point of
  the reference route (the selector is not given the caller's destination).
\<close>

theorem merge_point_least_score:
  assumes "find_optimal_merge_point g s route maxdev = Inr (i, p)"
    and "closest_index g s route \<le> j0" "j0 < length route" "g s (route ! j0) \<le> maxdev"
  shows "closest_index g s route \<le> i \<and> i < length route \<and> p = route ! i \<and> g s p \<le> maxdev \<and>
         (\<forall>j. closest_index g s route \<le> j \<and> j < length route \<and> g s (route ! j) \<le> maxdev \<longrightarrow>
            g s p + 2 * ang_diff (bearing s p) (bearing s (last route))
              \<le> g s (route ! j) + 2 * ang_diff (bearing s (route ! j)) (bearing s (last route))) \<and>
         (\<forall>j. closest_index g s route \<le> j \<and> j < i \<and> g s (route ! j) \<le> maxdev \<longrightarrow>
            g s p + 2 * ang_diff (bearing s p) (bearing s (last route))
              < g s (route ! j) + 2 * ang_diff (bearing s (route ! j)) (bearing s (last route)))"
proof -
  have ne: "route \<noteq> []" using assms(3) by auto
  have nofar: "\<not> (\<forall>j \<in> {closest_index g s route..<length route}. maxdev < g s (route ! j))"
    using assms(2-4) by (auto simp: not_less intro!: bexI [of _ j0])
  from find_optimal_merge_point_result [OF ne, of g s maxdev] nofar assms(1)
  obtain k where k: "k \<in> {closest_index g s route..<length route}"
    and r: "i = k" "p = route ! k"
    and near: "g s (route ! k) \<le> maxdev"
    and lo: "\<forall>j \<in> {closest_index g s route..<length route}. g s (route ! j) \<le> maxdev \<longrightarrow>
               merge_score g s route (route ! k) \<le> merge_score g s route (route ! j)"
    and fi: "\<forall>j \<in> {closest_index g s route..<k}. g s (route ! j) \<le> maxdev \<longrightarrow>
               merge_score g s route (route ! k) < merge_score g s route (route ! j)"
    by auto
  from lo have "\<forall>j. closest_index g s route \<le> j \<and> j < length route \<and> g s (route ! j) \<le> maxdev \<longrightarrow>
            g s p + 2 * ang_diff (bearing s p) (bearing s (last route))
              \<le> g s (route ! j) + 2 * ang_diff (bearing s (route ! j)) (bearing s (last route))"
    by (simp add: merge_score_def r mult.commute)
  moreover from fi
  have "\<forall>j. closest_index g s route \<le> j \<and> j < i \<and> g s (route ! j) \<le> maxdev \<longrightarrow>
            g s p + 2 * ang_diff (bearing s p) (bearing s (last route))
              < g s (route ! j) + 2 * ang_diff (bearing s (route ! j)) (bearing s (last route))"
    by (simp add: merge_score_def r mult.commute)
  ultimately show ?thesis using k r near by simp
qed

theorem merge_point_least_score_witness:
  "find_optimal_merge_point equator_km (0, 0) [(- 1, 0), (1, 0)] 200 = Inr (1, (1, 0)) \<and>
   closest_index equator_km (0, 0) [(- 1, 0), (1, 0)] \<le> 0 \<and>
   equator_km (0, 0) ([(- 1, 0), (1, 0)] ! 0) \<le> 200 \<and>
   equator_km (0, 0) (1, 0) + 2 * ang_diff (bearing (0, 0) (1, 0)) (bearing (0, 0) (1, 0))
     < equator_km (0, 0) (- 1, 0) + 2 * ang_diff (bearing (0, 0) (- 1, 0)) (bearing (0, 0) (1, 0))"
proof -
  have c: "closest_index equator_km (0, 0) [(- 1, 0), (1, 0)] \<le> 0"
    by (simp add: closest_index_west_east)
  have n: "(0::nat) < length [(- 1, 0), (1, 0) :: coord]" by simp
  have d: "equator_km (0, 0) ([(- 1, 0), (1, 0)] ! 0) \<le> 200"
    by (simp add: equator_km_def)
  from merge_point_least_score [OF merge_point_west_east c n d]
  have "closest_index equator_km (0, 0) [(- 1, 0), (1, 0)] \<le> 0 \<and> (0::nat) < 1 \<and>
        equator_km (0, 0) ([(- 1, 0), (1, 0)] ! 0) \<le> 200 \<longrightarrow>
        equator_km (0, 0) (1, 0)
          + 2 * ang_diff (bearing (0, 0) (1, 0)) (bearing (0, 0) (last [(- 1, 0), (1, 0)]))
        < equator_km (0, 0) ([(- 1, 0), (1, 0)] ! 0)
          + 2 * ang_diff (bearing (0, 0) ([(- 1, 0), (1, 0)] ! 0))
                (bearing (0, 0) (last [(- 1, 0), (1, 0)]))"
    by blast
  with c d have "equator_km (0, 0) (1, 0)
          + 2 * ang_diff (bearing (0, 0) (1, 0)) (bearing (0, 0) (1, 0))
        < equator_km (0, 0) (- 1, 0)
          + 2 * ang_diff (bearing (0, 0) (- 1, 0)) (bearing (0, 0) (1, 0))"
    by simp
  with merge_point_west_east c d show ?thesis by blast
qed

text \<open>
  C4 as stated, with the bearing to the caller-supplied destination, fails: for a ship
  at (0, 0) and a destination (-2, 0) to the west, on the reference route
  [(-1, 0), (1, 0)], both candidates are scanned and within 200 km, the western one has
  the lower score of the specification (111.3195 against 471.3195), and the selector
  returns the eastern one, index 1, which lies in the direction of the route's end.
\<close>

theorem merge_score_destination_counterexample:
  "find_optimal_merge_point equator_km (0, 0) [(- 1, 0), (1, 0)] 200 = Inr (1, (1, 0)) \<and>
   closest_index equator_km (0, 0) [(- 1, 0), (1, 0)] = 0 \<and>
   equator_km (0, 0) (- 1, 0) \<le> 200 \<and>
   spec_merge_score equator_km (0, 0) (- 2, 0) (- 1, 0) = 111.3195 \<and>
   spec_merge_score equator_km (0, 0) (- 2, 0) (1, 0) = 471.3195"
  by (simp add: merge_point_west_east closest_index_west_east spec_merge_score_def
      equator_km_def bearing_0_1 bearing_0_m1 bearing_0_m2 ang_diff_values)

section \<open>The shape of the composed routes\<close>

lemma ensure_destination_last:
  "last (ensure_destination coords destination) = destination"
  by (simp add: ensure_destination_def)

lemma ensure_destination_hd:
  "coords \<noteq> [] \<Longrightarrow> hd (ensure_destination coords destination) = hd coords"
  by (simp add: ensure_destination_def)

lemma ensure_destination_nonempty:
  "coords \<noteq> [] \<Longrightarrow> ensure_destination coords destination \<noteq> []"
  by (simp add: ensure_destination_def)

lemma dedup_scan_props:
  "acc \<noteq> [] \<Longrightarrow> distinct_adj acc \<Longrightarrow>
   dedup_scan acc cs \<noteq> [] \<and> distinct_adj (dedup_scan acc cs) \<and>
   hd (dedup_scan acc cs) = hd acc \<and> last (dedup_scan acc cs) = last (acc @ cs)"
proof (induction cs arbitrary: acc)
  case Nil
  then show ?case by simp
next
  case (Cons c cs)
  show ?case
  proof (cases "c = last acc")
    case True
    have "last (acc @ c # cs) = last (acc @ cs)"
      using True Cons.prems(1) by (cases cs) simp_all
    with Cons.IH [OF Cons.prems] True show ?thesis by simp
  next
    case False
    have "acc @ [c] \<noteq> []" by simp
    moreover have "distinct_adj (acc @ [c])"
      using False Cons.prems by (simp add: distinct_adj_append_iff)
    ultimately have "dedup_scan (acc @ [c]) cs \<noteq> [] \<and>
        distinct_adj (dedup_scan (acc @ [c]) cs) \<and>
        hd (dedup_scan (acc @ [c]) cs) = hd (acc @ [c]) \<and>
        last (dedup_scan (acc @ [c]) cs) = last ((acc @ [c]) @ cs)"
      by (rule Cons.IH)
    with False Cons.prems(1) show ?thesis by simp
  qed
qed

lemma guided_coordinates_shape:
  assumes "create_guided_route g sr s d u ws = Inr f"
  shows "coordinates (geometry f) \<noteq> [] \<and> hd (coordinates (geometry f)) = s \<and>
         last (coordinates (geometry f)) = d \<and> distinct_adj (coordinates (geometry f))"
proof -
  from assms obtain waypoints where
    c: "coordinates (geometry f) =
          dedup_scan [hd (ensure_destination ([s] @ waypoints) d)]
            (tl (ensure_destination ([s] @ waypoints) d))"
    by (auto simp: create_guided_route_def Let_def split: sum.splits if_splits)
  let ?n = "ensure_destination ([s] @ waypoints) d"
  have ne: "?n \<noteq> []" by (simp add: ensure_destination_nonempty)
  have h: "hd ?n = s" by (simp add: ensure_destination_hd)
  have l: "last ?n = d" by (rule ensure_destination_last)
  have "[hd ?n] @ tl ?n = ?n" using ne by simp
  then have l': "last ([hd ?n] @ tl ?n) = d" using l by simp
  have "dedup_scan [hd ?n] (tl ?n) \<noteq> [] \<and> distinct_adj (dedup_scan [hd ?n] (tl ?n)) \<and>
        hd (dedup_scan [hd ?n] (tl ?n)) = hd [hd ?n] \<and>
        last (dedup_scan [hd ?n] (tl ?n)) = last ([hd ?n] @ tl ?n)"
    by (rule dedup_scan_props) simp_all
  with c h l' show ?thesis by simp
qed

lemma optimized_coordinates_shape:
  assumes "create_optimized_route_from_position g sr s d ref u = Inr f"
  shows "coordinates (geometry f) \<noteq> [] \<and> hd (coordinates (geometry f)) = s \<and>
         last (coordinates (geometry f)) = d"
proof -
  from assms obtain mid where
    c: "coordinates (geometry f) = ensure_destination ([s] @ mid) d"
    by (auto simp: create_optimized_route_from_position_def Let_def
        split: sum.splits option.splits if_splits)
  show ?thesis
    by (simp add: c ensure_destination_nonempty ensure_destination_hd ensure_destination_last)
qed

lemma course_filter_coordinates:
  "coordinates (geometry (course_filter g f d u course tol)) =
     (case course of
        None \<Rightarrow> coordinates (geometry f)
      | Some c \<Rightarrow>
          if length (coordinates (geometry f)) > 1
          then ensure_destination
                 ([coordinates (geometry f) ! 0]
                    @ drop (keep_scan (coordinates (geometry f)) c tol 1) (coordinates (geometry f))) d
          else coordinates (geometry f))"
  by (simp add: course_filter_def Let_def split: option.splits)

lemma course_filter_shape:
  assumes "coordinates (geometry f) \<noteq> []"
  shows "coordinates (geometry (course_filter g f d u course tol)) \<noteq> [] \<and>
         hd (coordinates (geometry (course_filter g f d u course tol))) = hd (coordinates (geometry f)) \<and>
         (last (coordinates (geometry f)) = d \<or>
            (course \<noteq> None \<and> length (coordinates (geometry f)) > 1) \<longrightarrow>
          last (coordinates (geometry (course_filter g f d u course tol))) = d)"
proof -
  have "coordinates (geometry f) ! 0 = hd (coordinates (geometry f))"
    using assms by (simp add: hd_conv_nth)
  with assms show ?thesis
    by (auto simp: course_filter_coordinates ensure_destination_nonempty ensure_destination_hd
        ensure_destination_last split: option.splits)
qed

lemma get_route_Inr:
  "get_route g sr slat slng elat elng u course tol rt = Inr out \<longleftrightarrow>
   (\<exists>f0. route_for_type g sr (slng, slat) (elng, elat) u rt = Inr f0 \<and>
         out = course_filter g f0 (elng, elat) u course tol)"
  by (auto simp: get_route_def Let_def split: sum.splits)

lemma bearing_east_from_origin:
  "bearing (0, 0) (2, 0) = 90" "bearing (0, 0) (3, 0) = 90"
  "bearing (0, 0) (5, 0) = 90" "bearing (0, 0) (10, 0) = 90"
  using bearing_equator_east [of 2 0] bearing_equator_east [of 3 0]
    bearing_equator_east [of 5 0] bearing_equator_east [of 10 0]
  by simp_all

lemma merge_point_east_3:
  "find_optimal_merge_point equator_km (0, 0) [(1, 0), (2, 0), (3, 0)] 200 = Inr (0, (1, 0))"
  by (simp add: find_optimal_merge_point_def closest_index_def merge_scan.simps
      merge_step_def Let_def below_inf_def equator_km_def bearing_0_1 bearing_east_from_origin
      ang_diff_values)

lemma optimized_east_3:
  "\<exists>f. create_optimized_route_from_position equator_km straight_line (0, 0) (3, 0)
          (Some [(1, 0), (2, 0), (3, 0)]) ''km'' = Inr f \<and>
       coordinates (geometry f) = [(0, 0), (1, 0), (2, 0), (3, 0)]"
  by (simp add: create_optimized_route_from_position_def merge_point_east_3 Let_def
      equator_km_def ensure_destination_def)

lemma guided_waypoints_east:
  "guided_waypoints (0, 0) (10, 0) [(0, 0), (5, 0), (10, 0)] 3 = Inr [(5, 0)]"
  by (simp add: guided_waypoints_def Let_def bearing_east_from_origin ang_diff_values
      py_range.simps)

lemma guided_east:
  "\<exists>f. create_guided_route equator_km (fixed_route [(0, 0), (5, 0), (10, 0)]) (0, 0) (10, 0)
          ''naut'' 3 = Inr f \<and>
       coordinates (geometry f) = [(0, 0), (5, 0), (10, 0)]"
  by (simp add: create_guided_route_def reference_after_retry_def fixed_route_def
      guided_waypoints_east [simplified] Let_def ensure_destination_def)

section \<open>The guided route on a degenerate reference route\<close>

lemma guided_degenerate:
  assumes "reference_after_retry sr s d u = Inr ref" and "length ref \<le> 2"
  shows "\<exists>f. create_guided_route g sr s d u ws = Inr f \<and>
             coordinates (geometry f) = (if s = d then [s] else [s, d]) \<and>
             gtype (geometry f) = ''LineString'' \<and>
             properties f ''length'' =
               Some (PNum (total_distance g u (if s = d then [s] else [s, d])))"
  using assms
  by (simp add: create_guided_route_def Let_def ensure_destination_def)

lemma reference_after_retry_short:
  "(reference_after_retry sr s d u = Inr ref \<and> length ref \<le> 2) \<longleftrightarrow>
   (\<exists>f. sr s d u = Some f \<and> coordinates (geometry f) = ref \<and> length ref \<le> 2 \<and>
        (case sr (fst s + 0.1, snd s + 0.1) (fst d - 0.1, snd d - 0.1) u of
           None \<Rightarrow> True
         | Some alt \<Rightarrow> length (coordinates (geometry alt)) \<le> 2))"
  by (auto simp: reference_after_retry_def Let_def split: option.splits)

lemma reference_straight_line:
  "reference_after_retry straight_line s d u = Inr [s, d]"
  by (simp add: reference_after_retry_def straight_line_def Let_def)

text \<open>
  C7, as amended: when the reference route still has at most 2 points after the offset
  retry and the start differs from the destination, the guided route is returned and its
  coordinate sequence is exactly \<open>[start, destination]\<close>.
\<close>

theorem guided_degenerate_two_points:
  assumes "reference_after_retry sr s d u = Inr ref" and "length ref \<le> 2" and "s \<noteq> d"
  shows "\<exists>f. create_guided_route g sr s d u ws = Inr f \<and> coordinates (geometry f) = [s, d]"
  using guided_degenerate [OF assms(1,2), of g ws] assms(3) by auto

theorem guided_degenerate_two_points_witness:
  "reference_after_retry straight_line (- 5, 0) (5, 0) ''naut'' = Inr [(- 5, 0), (5, 0)] \<and>
   length [(- 5, 0), (5, 0) :: coord] \<le> 2 \<and> (- 5, 0) \<noteq> (5 :: real, 0 :: real) \<and>
   (\<exists>f. create_guided_route equator_km straight_line (- 5, 0) (5, 0) ''naut'' 3 = Inr f \<and>
        coordinates (geometry f) = [(- 5, 0), (5, 0)])"
proof -
  have r: "reference_after_retry straight_line (- 5, 0) (5, 0) ''naut'' = Inr [(- 5, 0), (5, 0)]"
    by (rule reference_straight_line)
  have l: "length [(- 5, 0), (5, 0) :: coord] \<le> 2" by simp
  have n: "(- 5, 0) \<noteq> (5 :: real, 0 :: real)" by simp
  from guided_degenerate_two_points [OF r l n, of equator_km 3] r l n
  show ?thesis by blast
qed

text \<open>
  C7 as stated fails when the start equals the destination: the destination is
  appended only if it differs from the last coordinate, so for a ship at (1, 0) bound
  for (1, 0), with a two-point reference route, the coordinate sequence is the single
  point \<open>[(1, 0)]\<close> and not \<open>[(1, 0), (1, 0)]\<close>.
\<close>

theorem guided_same_point_counterexample:
  "reference_after_retry straight_line (1, 0) (1, 0) ''naut'' = Inr [(1, 0), (1, 0)] \<and>
   coords_of (create_guided_route equator_km straight_line (1, 0) (1, 0) ''naut'' 3)
     = Some [(1, 0)]"
  by (simp add: reference_straight_line create_guided_route_def coords_of_def Let_def
      ensure_destination_def)

text \<open>
  C10: when the start equals the destination and the reference route has at most 2
  points after the offset retry, the guided route is a LineString of the single point
  start, fewer than the 2 coordinates of a polyline, and its reported length is 0.
\<close>

theorem guided_same_point_single:
  assumes "reference_after_retry sr p p u = Inr ref" and "length ref \<le> 2"
  shows "\<exists>f. create_guided_route g sr p p u ws = Inr f \<and>
             coordinates (geometry f) = [p] \<and>
             gtype (geometry f) = ''LineString'' \<and>
             length (coordinates (geometry f)) < 2 \<and>
             properties f ''length'' = Some (PNum 0)"
  using guided_degenerate [OF assms, of g ws] by (auto simp: total_distance_def)

theorem guided_same_point_single_witness:
  "reference_after_retry straight_line (2, 0) (2, 0) ''km'' = Inr [(2, 0), (2, 0)] \<and>
   length [(2, 0), (2, 0) :: coord] \<le> 2 \<and>
   (\<exists>f. create_guided_route equator_km straight_line (2, 0) (2, 0) ''km'' 3 = Inr f \<and>
        coordinates (geometry f) = [(2, 0)] \<and>
        properties f ''length'' = Some (PNum 0))"
proof -
  have r: "reference_after_retry straight_line (2, 0) (2, 0) ''km'' = Inr [(2, 0), (2, 0)]"
    by (rule reference_straight_line)
  have l: "length [(2, 0), (2, 0) :: coord] \<le> 2" by simp
  from guided_same_point_single [OF r l, of equator_km 3] r l
  show ?thesis by blast
qed

section \<open>Consecutive duplicates\<close>

text \<open>
  C1 at a concrete input: the optimized route copies the tail of the reference route
  as it is. For a ship at (0, 0) bound for (3, 0) and the reference route
  [(1, 0), (2, 0), (2, 0), (3, 0)], the merge point is index 0 and the returned
  coordinate sequence holds (2, 0) twice in a row. The guided builder removes such
  repetitions (\<open>guided_coordinates_shape\<close>); the optimized builder and the course
  filter have no such step.
\<close>

theorem optimized_keeps_repeated_point:
  "coords_of (create_optimized_route_from_position equator_km straight_line (0, 0) (3, 0)
                (Some [(1, 0), (2, 0), (2, 0), (3, 0)]) ''km'')
     = Some [(0, 0), (1, 0), (2, 0), (2, 0), (3, 0)]"
proof -
  have "find_optimal_merge_point equator_km (0, 0) [(1, 0), (2, 0), (2, 0), (3, 0)] 200
          = Inr (0, (1, 0))"
    by (simp add: find_optimal_merge_point_def closest_index_def merge_scan.simps
        merge_step_def Let_def below_inf_def equator_km_def bearing_0_1
        bearing_east_from_origin ang_diff_values)
  then show ?thesis
    by (simp add: create_optimized_route_from_position_def coords_of_def Let_def
        equator_km_def ensure_destination_def)
qed

section \<open>The course filter\<close>

lemma keep_scan_off_end:
  "i \<le> length coords \<Longrightarrow>
   \<forall>k. i \<le> k \<and> k < length coords \<longrightarrow>
       \<not> ang_diff (bearing (coords ! 0) (coords ! k)) c \<le> tol \<Longrightarrow>
   keep_scan coords c tol i = length coords"
proof (induction coords c tol i rule: keep_scan.induct)
  case (1 coords c tol i)
  show ?case
  proof (cases "i < length coords")
    case True
    with "1.prems" have no: "\<not> ang_diff (bearing (coords ! 0) (coords ! i)) c \<le> tol"
      by simp
    have "keep_scan coords c tol (i + 1) = length coords"
      using "1.IH" [OF True no] True "1.prems" by simp
    with True no show ?thesis
      by (subst keep_scan.simps) simp
  next
    case False
    with "1.prems" show ?thesis
      by (subst keep_scan.simps) simp
  qed
qed

lemma course_filter_length:
  "properties (course_filter g f d u (Some c) tol) ''length'' =
     (if 1 < length (coordinates (geometry f))
      then Some (PNum (total_distance g u (coordinates (geometry (course_filter g f d u (Some c) tol)))))
      else properties f ''length'')"
  by (simp add: course_filter_def Let_def)

lemma course_filter_duration:
  "properties (course_filter g f d u (Some c) tol) ''duration_hours'' =
     (if 1 < length (coordinates (geometry f))
      then Some (PNum (duration_hours
             (total_distance g u (coordinates (geometry (course_filter g f d u (Some c) tol)))) u))
      else properties f ''duration_hours'')"
  by (simp add: course_filter_def Let_def)

lemma guided_east_full:
  "\<exists>f. create_guided_route equator_km (fixed_route [(0, 0), (5, 0), (10, 0)]) (0, 0) (10, 0)
          ''naut'' 3 = Inr f \<and>
       coordinates (geometry f) = [(0, 0), (5, 0), (10, 0)] \<and>
       properties f ''units'' = Some (PStr ''naut'') \<and>
       properties f ''route_type'' = Some (PStr ''guided'') \<and>
       properties f ''reference_points_used'' = Some (PInt 3) \<and>
       properties f ''waypoints_created'' = Some (PInt 3)"
  by (simp add: create_guided_route_def reference_after_retry_def fixed_route_def
      guided_waypoints_east [simplified] Let_def ensure_destination_def)

lemma keep_scan_east_west:
  "keep_scan [(0, 0), (5, 0), (10, 0)] 270 45 1 = 3"
  by (simp add: keep_scan.simps bearing_east_from_origin ang_diff_values)

lemma keep_scan_east_east:
  "keep_scan [(0, 0), (5, 0), (10, 0)] 90 45 1 = 1"
  by (simp add: keep_scan.simps bearing_east_from_origin ang_diff_values)

text \<open>
  C3, as amended: when the route has more than one coordinate and no waypoint \<open>k \<ge> 1\<close>
  has an angular difference between \<open>bearing(coords[0], coords[k])\<close> and the course within
  the tolerance, the scan runs off the end, every waypoint is dropped, and the filtered
  route is \<open>[coords[0], destination]\<close> (\<open>[coords[0]]\<close> alone when that is the destination),
  with the length and the duration recomputed over it.
\<close>

theorem course_filter_no_match:
  assumes "1 < length (coordinates (geometry f))"
    and "\<forall>k. 1 \<le> k \<and> k < length (coordinates (geometry f)) \<longrightarrow>
           \<not> ang_diff (bearing (coordinates (geometry f) ! 0) (coordinates (geometry f) ! k)) c
                \<le> tol"
  shows "coordinates (geometry (course_filter g f d u (Some c) tol)) =
           (if coordinates (geometry f) ! 0 = d then [coordinates (geometry f) ! 0]
            else [coordinates (geometry f) ! 0, d]) \<and>
         properties (course_filter g f d u (Some c) tol) ''length'' =
           Some (PNum (total_distance g u
             (if coordinates (geometry f) ! 0 = d then [coordinates (geometry f) ! 0]
              else [coordinates (geometry f) ! 0, d]))) \<and>
         properties (course_filter g f d u (Some c) tol) ''duration_hours'' =
           Some (PNum (duration_hours (total_distance g u
             (if coordinates (geometry f) ! 0 = d then [coordinates (geometry f) ! 0]
              else [coordinates (geometry f) ! 0, d])) u))"
proof -
  have "keep_scan (coordinates (geometry f)) c tol 1 = length (coordinates (geometry f))"
    using assms by (intro keep_scan_off_end) simp_all
  then have co: "coordinates (geometry (course_filter g f d u (Some c) tol)) =
           (if coordinates (geometry f) ! 0 = d then [coordinates (geometry f) ! 0]
            else [coordinates (geometry f) ! 0, d])"
    using assms(1) by (simp add: course_filter_coordinates ensure_destination_def)
  show ?thesis
    using assms(1) co
    by (simp add: course_filter_length course_filter_duration del: One_nat_def)
qed

theorem course_filter_no_match_witness:
  "1 < length [(0, 0), (5, 0), (10, 0) :: coord] \<and>
   \<not> ang_diff (bearing (0, 0) (5, 0)) 270 \<le> 45 \<and>
   \<not> ang_diff (bearing (0, 0) (10, 0)) 270 \<le> 45 \<and>
   coordinates (geometry (course_filter equator_km
      \<lparr>ftype = ''Feature'',
       geometry = \<lparr>gtype = ''LineString'', coordinates = [(0, 0), (5, 0), (10, 0)]\<rparr>,
       properties = Map.empty\<rparr> (10, 0) ''km'' (Some 270) 45)) = [(0, 0), (10, 0)] \<and>
   properties (course_filter equator_km
      \<lparr>ftype = ''Feature'',
       geometry = \<lparr>gtype = ''LineString'', coordinates = [(0, 0), (5, 0), (10, 0)]\<rparr>,
       properties = Map.empty\<rparr> (10, 0) ''km'' (Some 270) 45) ''length'' = Some (PNum 1113.195) \<and>
   properties (course_filter equator_km
      \<lparr>ftype = ''Feature'',
       geometry = \<lparr>gtype = ''LineString'', coordinates = [(0, 0), (5, 0), (10, 0)]\<rparr>,
       properties = Map.empty\<rparr> (10, 0) ''km'' (Some 270) 45) ''duration_hours''
     = Some (PNum (1113.195 / 44.448))"
proof -
  let ?f = "\<lparr>ftype = ''Feature'',
       geometry = \<lparr>gtype = ''LineString'', coordinates = [(0, 0), (5, 0), (10, 0)]\<rparr>,
       properties = Map.empty\<rparr>"
  have l: "1 < length (coordinates (geometry ?f))" by simp
  have n: "\<forall>k. 1 \<le> k \<and> k < length (coordinates (geometry ?f)) \<longrightarrow>
           \<not> ang_diff (bearing (coordinates (geometry ?f) ! 0) (coordinates (geometry ?f) ! k)) 270
                \<le> 45"
    by (auto simp: nth_Cons' less_Suc_eq numeral_eq_Suc bearing_east_from_origin ang_diff_values)
  have t: "total_distance equator_km ''km'' [(0, 0), (10, 0)] = 1113.195"
    by (simp add: total_distance_def calculate_distance_def equator_km_def)
  from course_filter_no_match [OF l n, of equator_km "(10, 0)" "''km''"]
  have "coordinates (geometry (course_filter equator_km ?f (10, 0) ''km'' (Some 270) 45))
          = [(0, 0), (10, 0)] \<and>
        properties (course_filter equator_km ?f (10, 0) ''km'' (Some 270) 45) ''length''
          = Some (PNum 1113.195) \<and>
        properties (course_filter equator_km ?f (10, 0) ''km'' (Some 270) 45) ''duration_hours''
          = Some (PNum (1113.195 / 44.448))"
    by (simp add: t duration_hours_def)
  then show ?thesis
    by (simp add: bearing_east_from_origin ang_diff_values)
qed

text \<open>
  C3 as stated, that the filter then keeps the whole coordinate sequence, fails: the
  guided route from (0, 0) to (10, 0) along the reference route
  [(0, 0), (5, 0), (10, 0)] is [(0, 0), (5, 0), (10, 0)]; with the course 270 and the
  tolerance 45 no waypoint matches (both bearings are 90), and the filtered route is
  [(0, 0), (10, 0)], without the waypoint (5, 0).
\<close>

theorem course_filter_drops_waypoints_counterexample:
  "coords_of (get_route equator_km (fixed_route [(0, 0), (5, 0), (10, 0)]) 0 0 0 10 ''naut''
               None 45 ''guided'') = Some [(0, 0), (5, 0), (10, 0)] \<and>
   \<not> ang_diff (bearing (0, 0) (5, 0)) 270 \<le> 45 \<and>
   \<not> ang_diff (bearing (0, 0) (10, 0)) 270 \<le> 45 \<and>
   coords_of (get_route equator_km (fixed_route [(0, 0), (5, 0), (10, 0)]) 0 0 0 10 ''naut''
               (Some 270) 45 ''guided'') = Some [(0, 0), (10, 0)]"
proof -
  obtain f where f: "create_guided_route equator_km (fixed_route [(0, 0), (5, 0), (10, 0)])
      (0, 0) (10, 0) ''naut'' 3 = Inr f"
    and c: "coordinates (geometry f) = [(0, 0), (5, 0), (10, 0)]"
    using guided_east_full by blast
  have "coords_of (get_route equator_km (fixed_route [(0, 0), (5, 0), (10, 0)]) 0 0 0 10 ''naut''
               None 45 ''guided'') = Some [(0, 0), (5, 0), (10, 0)]"
    by (simp add: get_route_def route_for_type_def f c coords_of_def course_filter_coordinates)
  moreover have "coords_of (get_route equator_km (fixed_route [(0, 0), (5, 0), (10, 0)]) 0 0 0 10
               ''naut'' (Some 270) 45 ''guided'') = Some [(0, 0), (10, 0)]"
    by (simp add: get_route_def route_for_type_def f c coords_of_def course_filter_coordinates
        keep_scan_east_west [simplified] ensure_destination_def)
  ultimately show ?thesis
    by (simp add: bearing_east_from_origin ang_diff_values)
qed

section \<open>The ends of a composed route\<close>

lemma route_for_type_composed:
  assumes "rt = ''optimized'' \<or> rt = ''guided''"
    and "route_for_type g sr s d u rt = Inr f0"
  shows "coordinates (geometry f0) \<noteq> [] \<and> hd (coordinates (geometry f0)) = s \<and>
         last (coordinates (geometry f0)) = d"
proof (cases "rt = ''optimized''")
  case True
  with assms(2) have "create_optimized_route_from_position g sr s d None u = Inr f0"
    by (simp add: route_for_type_def)
  then show ?thesis by (rule optimized_coordinates_shape)
next
  case False
  with assms have "create_guided_route g sr s d u 3 = Inr f0"
    by (simp add: route_for_type_def)
  then show ?thesis using guided_coordinates_shape by blast
qed

text \<open>
  C2, as amended: every route that \<open>create_optimized_route_from_position\<close> or
  \<open>create_guided_route\<close> returns starts with the caller's start position and ends with
  the caller's destination, by exact value; so does the route the handler returns for
  these two strategies, with or without a course; and the course filter, on any route
  of more than one coordinate, keeps the first coordinate of that route and ends with
  the destination, which it appends when missing.
\<close>

theorem route_endpoints:
  "(create_optimized_route_from_position g sr s d ref u = Inr f \<longrightarrow>
      coordinates (geometry f) \<noteq> [] \<and> hd (coordinates (geometry f)) = s \<and>
      last (coordinates (geometry f)) = d) \<and>
   (create_guided_route g sr s d u ws = Inr f \<longrightarrow>
      coordinates (geometry f) \<noteq> [] \<and> hd (coordinates (geometry f)) = s \<and>
      last (coordinates (geometry f)) = d) \<and>
   ((rt = ''optimized'' \<or> rt = ''guided'') \<and>
    get_route g sr start_lat start_lng end_lat end_lng u course tol rt = Inr f \<longrightarrow>
      coordinates (geometry f) \<noteq> [] \<and> hd (coordinates (geometry f)) = (start_lng, start_lat) \<and>
      last (coordinates (geometry f)) = (end_lng, end_lat)) \<and>
   (1 < length (coordinates (geometry f)) \<longrightarrow>
      hd (coordinates (geometry (course_filter g f d u (Some c) tol)))
        = hd (coordinates (geometry f)) \<and>
      last (coordinates (geometry (course_filter g f d u (Some c) tol))) = d)"
proof (intro conjI impI)
  assume "create_optimized_route_from_position g sr s d ref u = Inr f"
  from optimized_coordinates_shape [OF this]
  show "coordinates (geometry f) \<noteq> []" "hd (coordinates (geometry f)) = s"
    "last (coordinates (geometry f)) = d" by simp_all
next
  assume "create_guided_route g sr s d u ws = Inr f"
  from guided_coordinates_shape [OF this]
  show "coordinates (geometry f) \<noteq> []" "hd (coordinates (geometry f)) = s"
    "last (coordinates (geometry f)) = d" by simp_all
next
  assume a: "(rt = ''optimized'' \<or> rt = ''guided'') \<and>
    get_route g sr start_lat start_lng end_lat end_lng u course tol rt = Inr f"
  then obtain f0 where f0: "route_for_type g sr (start_lng, start_lat) (end_lng, end_lat) u rt = Inr f0"
    and f: "f = course_filter g f0 (end_lng, end_lat) u course tol"
    by (auto simp: get_route_Inr)
  from a f0 have sh: "coordinates (geometry f0) \<noteq> [] \<and>
      hd (coordinates (geometry f0)) = (start_lng, start_lat) \<and>
      last (coordinates (geometry f0)) = (end_lng, end_lat)"
    by (intro route_for_type_composed) simp_all
  then have ne: "coordinates (geometry f0) \<noteq> []" by simp
  from course_filter_shape [OF ne, of g "(end_lng, end_lat)" u course tol] sh
  show "coordinates (geometry f) \<noteq> []"
    "hd (coordinates (geometry f)) = (start_lng, start_lat)"
    "last (coordinates (geometry f)) = (end_lng, end_lat)"
    by (simp_all add: f)
next
  assume l: "1 < length (coordinates (geometry f))"
  then have ne: "coordinates (geometry f) \<noteq> []" by auto
  from course_filter_shape [OF ne, of g d u "Some c" tol] l
  show "hd (coordinates (geometry (course_filter g f d u (Some c) tol)))
        = hd (coordinates (geometry f))"
    "last (coordinates (geometry (course_filter g f d u (Some c) tol))) = d"
    by simp_all
qed

theorem route_endpoints_witness:
  "(\<exists>f. create_optimized_route_from_position equator_km straight_line (0, 0) (3, 0)
           (Some [(1, 0), (2, 0), (3, 0)]) ''km'' = Inr f \<and>
        hd (coordinates (geometry f)) = (0, 0) \<and> last (coordinates (geometry f)) = (3, 0)) \<and>
   (\<exists>f. create_guided_route equator_km (fixed_route [(0, 0), (5, 0), (10, 0)]) (0, 0) (10, 0)
           ''naut'' 3 = Inr f \<and>
        hd (coordinates (geometry f)) = (0, 0) \<and> last (coordinates (geometry f)) = (10, 0)) \<and>
   (\<exists>f. get_route equator_km (fixed_route [(0, 0), (5, 0), (10, 0)]) 0 0 0 10 ''naut''
           (Some 90) 45 ''guided'' = Inr f \<and>
        hd (coordinates (geometry f)) = (0, 0) \<and> last (coordinates (geometry f)) = (10, 0) \<and>
        1 < length (coordinates (geometry f)) \<and>
        last (coordinates (geometry (course_filter equator_km f (7, 0) ''naut'' (Some 90) 45)))
          = (7, 0))"
proof -
  obtain f1 where f1: "create_optimized_route_from_position equator_km straight_line (0, 0)
      (3, 0) (Some [(1, 0), (2, 0), (3, 0)]) ''km'' = Inr f1"
    using optimized_east_3 by blast
  have p1: "hd (coordinates (geometry f1)) = (0, 0) \<and> last (coordinates (geometry f1)) = (3, 0)"
    using route_endpoints [where g = equator_km and sr = straight_line and s = "(0, 0)"
        and d = "(3, 0)" and ref = "Some [(1, 0), (2, 0), (3, 0)]" and u = "''km''"
        and f = f1] f1
    by blast
  obtain f2 where f2: "create_guided_route equator_km (fixed_route [(0, 0), (5, 0), (10, 0)])
      (0, 0) (10, 0) ''naut'' 3 = Inr f2"
    using guided_east by blast
  have p2: "hd (coordinates (geometry f2)) = (0, 0) \<and> last (coordinates (geometry f2)) = (10, 0)"
    using route_endpoints [where g = equator_km
        and sr = "fixed_route [(0, 0), (5, 0), (10, 0)]" and s = "(0, 0)" and d = "(10, 0)"
        and u = "''naut''" and ws = 3 and f = f2] f2
    by blast
  obtain f3 where f3: "get_route equator_km (fixed_route [(0, 0), (5, 0), (10, 0)]) 0 0 0 10
      ''naut'' (Some 90) 45 ''guided'' = Inr f3"
    and c3: "coordinates (geometry f3) = [(0, 0), (5, 0), (10, 0)]"
    using guided_east_full
    by (auto simp: get_route_def route_for_type_def course_filter_coordinates
        keep_scan_east_east [simplified] ensure_destination_def)
  have l3: "1 < length (coordinates (geometry f3))" by (simp add: c3)
  have p3: "hd (coordinates (geometry f3)) = (0, 0) \<and> last (coordinates (geometry f3)) = (10, 0) \<and>
      last (coordinates (geometry (course_filter equator_km f3 (7, 0) ''naut'' (Some 90) 45)))
        = (7, 0)"
    using route_endpoints [where g = equator_km
        and sr = "fixed_route [(0, 0), (5, 0), (10, 0)]" and d = "(7, 0)" and u = "''naut''"
        and f = f3 and rt = "''guided''" and start_lat = 0 and start_lng = 0 and end_lat = 0
        and end_lng = 10 and course = "Some 90" and tol = 45 and c = 90] f3 l3
    by blast
  from f1 p1 f2 p2 f3 p3 l3 show ?thesis by blast
qed

lemma bearing_1_5: "bearing (1, 0) (5, 0) = 90"
  using bearing_equator_east [of 4 1] by simp

lemma keep_scan_from_1: "keep_scan [(1, 0), (5, 0), (9, 0)] 90 45 1 = 1"
  by (simp add: keep_scan.simps bearing_1_5 ang_diff_values)

text \<open>
  C2 as stated, for every route after course filtering, fails for the strategy
  \<open>original\<close>: the filter keeps the first coordinate of the pathfinder's route. For a
  start (0, 0), a destination (10, 0), the course 90 and the pathfinder's route
  [(1, 0), (5, 0), (9, 0)], the handler returns [(1, 0), (5, 0), (9, 0), (10, 0)],
  which ends with the destination and does not start with the start position.
\<close>

theorem original_route_start_counterexample:
  "coords_of (get_route equator_km (fixed_route [(1, 0), (5, 0), (9, 0)]) 0 0 0 10 ''naut''
               (Some 90) 45 ''original'') = Some [(1, 0), (5, 0), (9, 0), (10, 0)] \<and>
   hd [(1, 0), (5, 0), (9, 0), (10, 0)] \<noteq> (0 :: real, 0 :: real)"
  by (simp add: get_route_def route_for_type_def fixed_route_def coords_of_def
      course_filter_coordinates keep_scan_from_1 [simplified] ensure_destination_def)

section \<open>What the course filter leaves alone\<close>

text \<open>
  C9: the feature the handler returns differs from the feature of the chosen strategy
  at most in the coordinates of its geometry and in the properties \<open>length\<close> and
  \<open>duration_hours\<close>: the feature type, the geometry type and every other property
  (\<open>units\<close>, \<open>route_type\<close>, \<open>merge_point_index\<close>, \<open>reference_points_used\<close>,
  \<open>waypoints_created\<close>) are those of the strategy's feature.
\<close>

theorem course_filter_frame:
  assumes "get_route g sr start_lat start_lng end_lat end_lng u course tol rt = Inr out"
  shows "\<exists>f0. route_for_type g sr (start_lng, start_lat) (end_lng, end_lat) u rt = Inr f0 \<and>
           ftype out = ftype f0 \<and>
           gtype (geometry out) = gtype (geometry f0) \<and>
           (\<forall>key. key \<noteq> ''length'' \<and> key \<noteq> ''duration_hours'' \<longrightarrow>
              properties out key = properties f0 key) \<and>
           properties out ''units'' = properties f0 ''units'' \<and>
           properties out ''route_type'' = properties f0 ''route_type'' \<and>
           properties out ''merge_point_index'' = properties f0 ''merge_point_index'' \<and>
           properties out ''reference_points_used'' = properties f0 ''reference_points_used'' \<and>
           properties out ''waypoints_created'' = properties f0 ''waypoints_created''"
proof -
  from assms obtain f0 where
    f0: "route_for_type g sr (start_lng, start_lat) (end_lng, end_lat) u rt = Inr f0"
    and out: "out = course_filter g f0 (end_lng, end_lat) u course tol"
    by (auto simp: get_route_Inr)
  have "ftype out = ftype f0" "gtype (geometry out) = gtype (geometry f0)"
    by (simp_all add: out course_filter_def Let_def split: option.splits)
  moreover have "\<forall>key. key \<noteq> ''length'' \<and> key \<noteq> ''duration_hours'' \<longrightarrow>
      properties out key = properties f0 key"
    by (simp add: out course_filter_def Let_def split: option.splits)
  moreover from this have "properties out ''units'' = properties f0 ''units''"
    "properties out ''route_type'' = properties f0 ''route_type''"
    "properties out ''merge_point_index'' = properties f0 ''merge_point_index''"
    "properties out ''reference_points_used'' = properties f0 ''reference_points_used''"
    "properties out ''waypoints_created'' = properties f0 ''waypoints_created''"
    by simp_all
  ultimately show ?thesis using f0 by blast
qed

theorem course_filter_frame_witness:
  "\<exists>out. get_route equator_km (fixed_route [(0, 0), (5, 0), (10, 0)]) 0 0 0 10 ''naut''
            (Some 270) 45 ''guided'' = Inr out \<and>
     coordinates (geometry out) = [(0, 0), (10, 0)] \<and>
     properties out ''units'' = Some (PStr ''naut'') \<and>
     properties out ''route_type'' = Some (PStr ''guided'') \<and>
     properties out ''reference_points_used'' = Some (PInt 3) \<and>
     properties out ''waypoints_created'' = Some (PInt 3)"
proof -
  obtain f where f: "create_guided_route equator_km (fixed_route [(0, 0), (5, 0), (10, 0)])
      (0, 0) (10, 0) ''naut'' 3 = Inr f"
    and c: "coordinates (geometry f) = [(0, 0), (5, 0), (10, 0)]"
    and p: "properties f ''units'' = Some (PStr ''naut'')"
      "properties f ''route_type'' = Some (PStr ''guided'')"
      "properties f ''reference_points_used'' = Some (PInt 3)"
      "properties f ''waypoints_created'' = Some (PInt 3)"
    using guided_east_full by blast
  have rt: "route_for_type equator_km (fixed_route [(0, 0), (5, 0), (10, 0)]) (0, 0) (10, 0)
      ''naut'' ''guided'' = Inr f"
    by (simp add: route_for_type_def f)
  obtain out where out: "get_route equator_km (fixed_route [(0, 0), (5, 0), (10, 0)]) 0 0 0 10
      ''naut'' (Some 270) 45 ''guided'' = Inr out"
    and co: "coordinates (geometry out) = [(0, 0), (10, 0)]"
    by (simp add: get_route_def rt c course_filter_coordinates
        keep_scan_east_west [simplified] ensure_destination_def)
  from course_filter_frame [OF out] rt
  have "properties out ''units'' = properties f ''units'' \<and>
        properties out ''route_type'' = properties f ''route_type'' \<and>
        properties out ''reference_points_used'' = properties f ''reference_points_used'' \<and>
        properties out ''waypoints_created'' = properties f ''waypoints_created''"
    by auto
  with out co p show ?thesis by simp
qed

end
